theory Spec2Isabelle
  imports Complex_Main "HOL-Library.Log_Nat"
begin

section \<open>JavaScript numbers\<close>

text \<open>
  Every number of the source is an ECMAScript Number, an IEEE 754 binary64 value.  The
  model keeps a finite value as the real number it denotes, beside the two infinities
  and NaN, and rounds the exact result of every arithmetic operation to the nearest
  binary64 value, ties to even, with overflow to an infinity and gradual underflow.
  The special-value cases of each operation are the ones of ECMA-262.  A zero is read as
  \<open>+0\<close>: the only divisor of the source that can be zero is the result of \<open>Math.abs\<close>,
  which never is \<open>-0\<close>, and nothing else the handlers do tells the two zeros apart.
\<close>

datatype jsnum = Num real | PosInf | NegInf | NaN

subsection \<open>Rounding to binary64\<close>

text \<open>
  \<open>log2_floor x\<close> is the exponent \<open>e\<close> of a positive \<open>x\<close>, with \<open>2^e \<le> x < 2^(e+1)\<close>;
  it is computed on the integer part of \<open>x\<close>, or of \<open>1/x\<close> when \<open>x\<close> is below 1.
\<close>

definition log2_floor :: "real \<Rightarrow> int" where
  "log2_floor x = (if 1 \<le> x then bitlen \<lfloor>x\<rfloor> - 1 else - bitlen (\<lceil>1 / x\<rceil> - 1))"

definition pow2 :: "int \<Rightarrow> real" where
  "pow2 k = (if 0 \<le> k then 2 ^ nat k else 1 / 2 ^ nat (- k))"

text \<open>The nearest integer, the even one of the two when they are equally near.\<close>

definition round_even :: "real \<Rightarrow> int" where
  "round_even t =
     (let n = \<lfloor>t\<rfloor>; f = t - of_int n
      in if f < 1 / 2 then n else if 1 / 2 < f then n + 1 else if even n then n else n + 1)"

text \<open>
  The binary64 values around \<open>x\<close> are the multiples of \<open>2 ^ ulp_exp x\<close>: 53 significant
  bits, and the fixed spacing \<open>2^-1074\<close> below \<open>2^-1022\<close>.  A value that rounds to
  \<open>2^1024\<close> or more in magnitude overflows.
\<close>

definition ulp_exp :: "real \<Rightarrow> int" where
  "ulp_exp x = max (log2_floor \<bar>x\<bar>) (- 1022) - 52"

definition round64 :: "real \<Rightarrow> jsnum" where
  "round64 x =
     (if x = 0 then Num 0
      else let q = pow2 (ulp_exp x); r = of_int (round_even (x / q)) * q
           in if 2 ^ 1024 \<le> \<bar>r\<bar> then (if 0 < x then PosInf else NegInf) else Num r)"

text \<open>A decimal literal of the source denotes the binary64 value nearest to it.\<close>

definition js_literal :: "real \<Rightarrow> jsnum" where
  "js_literal x = round64 x"

subsection \<open>The operations\<close>

fun js_neg :: "jsnum \<Rightarrow> jsnum" where
  "js_neg (Num x) = Num (- x)"
| "js_neg PosInf = NegInf"
| "js_neg NegInf = PosInf"
| "js_neg NaN = NaN"

fun js_add :: "jsnum \<Rightarrow> jsnum \<Rightarrow> jsnum" where
  "js_add NaN b = NaN"
| "js_add a NaN = NaN"
| "js_add (Num x) (Num y) = round64 (x + y)"
| "js_add PosInf NegInf = NaN"
| "js_add NegInf PosInf = NaN"
| "js_add PosInf b = PosInf"
| "js_add NegInf b = NegInf"
| "js_add (Num x) b = b"

definition js_sub :: "jsnum \<Rightarrow> jsnum \<Rightarrow> jsnum" where
  "js_sub a b = js_add a (js_neg b)"

fun js_mul :: "jsnum \<Rightarrow> jsnum \<Rightarrow> jsnum" where
  "js_mul NaN b = NaN"
| "js_mul a NaN = NaN"
| "js_mul (Num x) (Num y) = round64 (x * y)"
| "js_mul (Num x) PosInf = (if x = 0 then NaN else if 0 < x then PosInf else NegInf)"
| "js_mul (Num x) NegInf = (if x = 0 then NaN else if 0 < x then NegInf else PosInf)"
| "js_mul PosInf (Num y) = (if y = 0 then NaN else if 0 < y then PosInf else NegInf)"
| "js_mul NegInf (Num y) = (if y = 0 then NaN else if 0 < y then NegInf else PosInf)"
| "js_mul PosInf PosInf = PosInf"
| "js_mul PosInf NegInf = NegInf"
| "js_mul NegInf PosInf = NegInf"
| "js_mul NegInf NegInf = PosInf"

fun js_div :: "jsnum \<Rightarrow> jsnum \<Rightarrow> jsnum" where
  "js_div NaN b = NaN"
| "js_div a NaN = NaN"
| "js_div (Num x) (Num y) =
     (if y = 0 then (if x = 0 then NaN else if 0 < x then PosInf else NegInf)
      else round64 (x / y))"
| "js_div (Num x) b = Num 0"
| "js_div PosInf (Num y) = (if 0 \<le> y then PosInf else NegInf)"
| "js_div NegInf (Num y) = (if 0 \<le> y then NegInf else PosInf)"
| "js_div a b = NaN"

fun Math_abs :: "jsnum \<Rightarrow> jsnum" where
  "Math_abs (Num x) = Num \<bar>x\<bar>"
| "Math_abs PosInf = PosInf"
| "Math_abs NegInf = PosInf"
| "Math_abs NaN = NaN"

fun Math_floor :: "jsnum \<Rightarrow> jsnum" where
  "Math_floor (Num x) = Num (of_int \<lfloor>x\<rfloor>)"
| "Math_floor a = a"

text \<open>The comparison \<open><\<close> of ECMAScript: false as soon as one side is NaN.\<close>

fun js_lt :: "jsnum \<Rightarrow> jsnum \<Rightarrow> bool" where
  "js_lt NaN b = False"
| "js_lt a NaN = False"
| "js_lt (Num x) (Num y) = (x < y)"
| "js_lt a NegInf = False"
| "js_lt NegInf b = True"
| "js_lt PosInf b = False"
| "js_lt (Num x) PosInf = True"

fun Math_max :: "jsnum \<Rightarrow> jsnum \<Rightarrow> jsnum" where
  "Math_max NaN b = NaN"
| "Math_max a NaN = NaN"
| "Math_max a b = (if js_lt a b then b else a)"

fun Math_min :: "jsnum \<Rightarrow> jsnum \<Rightarrow> jsnum" where
  "Math_min NaN b = NaN"
| "Math_min a NaN = NaN"
| "Math_min a b = (if js_lt b a then b else a)"

text \<open>
  \<open>Math.pow\<close>, by the cases of Number::exponentiate: the exponent first (NaN, then
  zero), then the special bases, then a negative base with an exponent that is not an
  integer, which gives NaN.  ECMA-262 leaves the precision of the remaining case to the
  implementation; the model takes the power rounded to binary64.  The source calls
  \<open>Math.pow\<close> with the exponent \<open>-1.05\<close> only.
\<close>

definition is_integer :: "real \<Rightarrow> bool" where
  "is_integer y = (y = of_int \<lfloor>y\<rfloor>)"

definition is_odd_integer :: "real \<Rightarrow> bool" where
  "is_odd_integer y = (is_integer y \<and> odd \<lfloor>y\<rfloor>)"

fun Math_pow :: "jsnum \<Rightarrow> jsnum \<Rightarrow> jsnum" where
  "Math_pow b NaN = NaN"
| "Math_pow b (Num y) =
     (if y = 0 then Num 1
      else case b of
        NaN \<Rightarrow> NaN
      | PosInf \<Rightarrow> (if 0 < y then PosInf else Num 0)
      | NegInf \<Rightarrow> (if 0 < y then (if is_odd_integer y then NegInf else PosInf) else Num 0)
      | Num x \<Rightarrow>
          (if x = 0 then (if 0 < y then Num 0 else PosInf)
           else if x < 0 \<and> \<not> is_integer y then NaN
           else if x < 0 then round64 (x powi \<lfloor>y\<rfloor>)
           else round64 (x powr y)))"
| "Math_pow NaN e = NaN"
| "Math_pow PosInf PosInf = PosInf"
| "Math_pow PosInf NegInf = Num 0"
| "Math_pow NegInf PosInf = PosInf"
| "Math_pow NegInf NegInf = Num 0"
| "Math_pow (Num x) PosInf =
     (if 1 < \<bar>x\<bar> then PosInf else if \<bar>x\<bar> = 1 then NaN else Num 0)"
| "Math_pow (Num x) NegInf =
     (if 1 < \<bar>x\<bar> then Num 0 else if \<bar>x\<bar> = 1 then NaN else PosInf)"

section \<open>Messages\<close>

text \<open>
  Modelled from the spec: the message classes, which the source imports and which are
  declared outside it.  Their fields are the ones of the specification's table of
  message shapes, in the order of the constructor calls of the source:
  \<open>new SingleMotorVibrateCmd(Speed, DeviceIndex, Id)\<close>,
  \<open>new FleshlightLaunchFW12Cmd(Speed, Position, DeviceIndex, Id)\<close>,
  \<open>new Error(Message, Class, Id)\<close>, \<open>new Ok(Id)\<close>.  The entries of \<open>Speeds\<close>,
  \<open>Rotations\<close> and \<open>Vectors\<close> are \<open>{Index, Speed}\<close>, \<open>{Speed, Clockwise}\<close> and
  \<open>{Duration, Position}\<close>.  \<open>Id\<close> and \<open>DeviceIndex\<close> are only copied, never computed
  with (\<open>MsgId\<close> below is the field \<open>Id\<close>).  Of the error classes the source names
  \<open>ERROR_DEVICE\<close> only; \<open>ERROR_OTHER\<close> stands for the rest.
\<close>

datatype ErrorClass = ERROR_DEVICE | ERROR_OTHER

datatype ButtplugMessage = Ok int | Error string ErrorClass int

datatype StopDeviceCmd = StopDeviceCmd int

datatype SingleMotorVibrateCmd = SingleMotorVibrateCmd jsnum int int

datatype SpeedSubcommand = SpeedSubcommand int jsnum

datatype VibrateCmd = VibrateCmd "SpeedSubcommand list" int int

datatype RotateSubcommand = RotateSubcommand jsnum bool

datatype RotateCmd = RotateCmd "RotateSubcommand list" int int

datatype VectorSubcommand = VectorSubcommand jsnum jsnum

datatype LinearCmd = LinearCmd "VectorSubcommand list" int int

datatype FleshlightLaunchFW12Cmd = FleshlightLaunchFW12Cmd jsnum jsnum int int

text \<open>The keys of \<open>MsgFuncs\<close> are the message classes, its values the handlers.\<close>

datatype MessageClass =
  C_StopDeviceCmd | C_SingleMotorVibrateCmd | C_VibrateCmd | C_RotateCmd
| C_LinearCmd | C_FleshlightLaunchFW12Cmd

datatype Handler =
  H_HandleStopDeviceCmd | H_HandleSingleMotorVibrateCmd | H_HandleVibrateCmd
| H_HandleRotateCmd | H_HandleFleshlightLaunchFW12Cmd | H_HandleLinearCmd

text \<open>
  What a call can throw (an \<open>async\<close> handler then returns a rejected promise): the
  \<open>TypeError\<close> of a property read on \<open>undefined\<close> or \<open>null\<close>, an \<open>Error\<close> with its
  text, the \<open>ButtplugDeviceException\<close> of the constructor.
\<close>

datatype js_error = TypeError | JsError string | ButtplugDeviceException string

text \<open>The payload of an emitted event: a bare number or one of the two object shapes.\<close>

datatype payload =
  PNumber jsnum
| PPositionSpeed jsnum jsnum
| PSpeedClockwise jsnum bool

section \<open>TestDeviceProtocol\<close>

text \<open>
  The private fields of the class (without their leading underscore), the inherited
  \<open>MsgFuncs\<close> map and device name, and the log of the events \<open>emit\<close> has sent, oldest
  first.
\<close>

record TestDeviceProtocol =
  Name :: string
  linearSpeed :: jsnum
  linearPosition :: jsnum
  vibrateSpeed :: jsnum
  rotateSpeed :: jsnum
  rotateClockwise :: bool
  shouldVibrate :: bool
  shouldRotate :: bool
  shouldLinear :: bool
  MsgFuncs :: "MessageClass \<Rightarrow> Handler option"
  events :: "(string \<times> payload) list"

definition emit :: "TestDeviceProtocol \<Rightarrow> string \<Rightarrow> payload \<Rightarrow> TestDeviceProtocol" where
  "emit this name p = this\<lparr>events := events this @ [(name, p)]\<rparr>"

definition has :: "TestDeviceProtocol \<Rightarrow> MessageClass \<Rightarrow> bool" where
  "has this k = (MsgFuncs this k \<noteq> None)"

definition MsgFuncs_set ::
  "TestDeviceProtocol \<Rightarrow> MessageClass \<Rightarrow> Handler \<Rightarrow> TestDeviceProtocol" where
  "MsgFuncs_set this k h = this\<lparr>MsgFuncs := (MsgFuncs this)(k \<mapsto> h)\<rparr>"

text \<open>
  Modelled from the spec: the constructor of the base class \<open>ButtplugDeviceProtocol\<close>,
  which is not part of the sources.  It stores the name and starts with no handler
  registered (the dispatch table holds an entry only for what the subclass registers).
  The field initialisers of the subclass follow.
\<close>

definition super_new :: "string \<Rightarrow> TestDeviceProtocol" where
  "super_new name =
     \<lparr>Name = name, linearSpeed = Num 0, linearPosition = Num 0, vibrateSpeed = Num 0,
      rotateSpeed = Num 0, rotateClockwise = False, shouldVibrate = False,
      shouldRotate = False, shouldLinear = False, MsgFuncs = Map.empty, events = []\<rparr>"

text \<open>
  The constructor.  \<open>isTestDeviceImpl\<close> is the outcome of
  \<open>deviceImpl instanceof TestDeviceImpl\<close>.
\<close>

definition TestDeviceProtocol_new ::
  "string \<Rightarrow> bool \<Rightarrow> bool \<Rightarrow> bool \<Rightarrow> bool \<Rightarrow> js_error + TestDeviceProtocol" where
  "TestDeviceProtocol_new name isTestDeviceImpl aShouldVibrate aShouldLinear aShouldRotate =
     (let this = super_new (''Test Device - '' @ name);
          this = this\<lparr>shouldVibrate := aShouldVibrate\<rparr>;
          this = this\<lparr>shouldLinear := aShouldLinear\<rparr>;
          this = this\<lparr>shouldRotate := aShouldRotate\<rparr>;
          this = MsgFuncs_set this C_StopDeviceCmd H_HandleStopDeviceCmd
      in if \<not> isTestDeviceImpl
         then Inl (ButtplugDeviceException
                ''TestDeviceProtocol can only be constructed with a TestDeviceImpl'')
         else
           let this = (if shouldVibrate this
                       then MsgFuncs_set
                              (MsgFuncs_set this C_SingleMotorVibrateCmd
                                 H_HandleSingleMotorVibrateCmd)
                              C_VibrateCmd H_HandleVibrateCmd
                       else this);
               this = (if shouldLinear this
                       then MsgFuncs_set
                              (MsgFuncs_set this C_FleshlightLaunchFW12Cmd
                                 H_HandleFleshlightLaunchFW12Cmd)
                              C_LinearCmd H_HandleLinearCmd
                       else this);
               this = (if shouldRotate this
                       then MsgFuncs_set this C_RotateCmd H_HandleRotateCmd
                       else this)
           in Inr this)"

text \<open>
  The getter \<open>MessageSpecifications\<close>.  The object it returns is the list of its
  properties in the order they are written; a property's value is its \<open>FeatureCount\<close>,
  or nothing for \<open>{}\<close>.
\<close>

definition MessageSpecifications :: "TestDeviceProtocol \<Rightarrow> (string \<times> nat option) list" where
  "MessageSpecifications this =
     (if has this C_VibrateCmd then
        [(''VibrateCmd'', Some 2), (''SingleMotorVibrateCmd'', None), (''StopDeviceCmd'', None)]
      else if has this C_LinearCmd then
        [(''LinearCmd'', Some 1), (''FleshlightLaunchFW12Cmd'', None), (''StopDeviceCmd'', None)]
      else if has this C_RotateCmd then
        [(''RotateCmd'', Some 1), (''StopDeviceCmd'', None)]
      else [])"

text \<open>
  A handler takes the object and the message and gives back either what it throws or
  the object as it has become, with the message the promise resolves to.  A handler
  that throws does so in its first read of the message, before it has changed a field
  or emitted an event, so what is thrown comes without an object.
\<close>

type_synonym result = "js_error + (TestDeviceProtocol \<times> ButtplugMessage)"

fun HandleStopDeviceCmd :: "TestDeviceProtocol \<Rightarrow> StopDeviceCmd \<Rightarrow> result" where
  "HandleStopDeviceCmd this (StopDeviceCmd MsgId) =
     (let this =
        (if has this C_VibrateCmd then emit this ''vibrate'' (PNumber (Num 0))
         else if has this C_LinearCmd then
           emit this ''linear'' (PPositionSpeed (linearPosition this) (linearSpeed this))
         else this)
      in Inr (this, Ok MsgId))"

fun HandleSingleMotorVibrateCmd :: "TestDeviceProtocol \<Rightarrow> SingleMotorVibrateCmd \<Rightarrow> result" where
  "HandleSingleMotorVibrateCmd this (SingleMotorVibrateCmd Speed DeviceIndex MsgId) =
     (let this = this\<lparr>vibrateSpeed := Speed\<rparr>;
          this = emit this ''vibrate'' (PNumber Speed)
      in Inr (this, Ok MsgId))"

text \<open>
  \<open>xs[0]\<close> is \<open>undefined\<close> on an empty array, and reading a property of \<open>undefined\<close>
  throws a \<open>TypeError\<close>.
\<close>

definition index0 :: "'a list \<Rightarrow> 'a option" where
  "index0 xs = (case xs of [] \<Rightarrow> None | x # _ \<Rightarrow> Some x)"

fun HandleVibrateCmd :: "TestDeviceProtocol \<Rightarrow> VibrateCmd \<Rightarrow> result" where
  "HandleVibrateCmd this (VibrateCmd Speeds DeviceIndex MsgId) =
     (case index0 Speeds of
        None \<Rightarrow> Inl TypeError
      | Some (SpeedSubcommand Index Speed) \<Rightarrow>
          HandleSingleMotorVibrateCmd this (SingleMotorVibrateCmd Speed DeviceIndex MsgId))"

fun HandleRotateCmd :: "TestDeviceProtocol \<Rightarrow> RotateCmd \<Rightarrow> result" where
  "HandleRotateCmd this (RotateCmd Rotations DeviceIndex MsgId) =
     (case index0 Rotations of
        None \<Rightarrow> Inl TypeError
      | Some (RotateSubcommand Speed Clockwise) \<Rightarrow>
          (let this = this\<lparr>rotateSpeed := Speed\<rparr>;
               this = this\<lparr>rotateClockwise := Clockwise\<rparr>;
               this = emit this ''vibrate''
                        (PSpeedClockwise (rotateSpeed this) (rotateClockwise this))
           in Inr (this, Ok MsgId)))"

fun HandleFleshlightLaunchFW12Cmd ::
  "TestDeviceProtocol \<Rightarrow> FleshlightLaunchFW12Cmd \<Rightarrow> result" where
  "HandleFleshlightLaunchFW12Cmd this (FleshlightLaunchFW12Cmd Speed Position DeviceIndex MsgId) =
     (let this = this\<lparr>linearPosition := Position\<rparr>;
          this = this\<lparr>linearSpeed := Speed\<rparr>;
          this = emit this ''linear'' (PPositionSpeed (linearPosition this) (linearSpeed this))
      in Inr (this, Ok MsgId))"

fun HandleLinearCmd :: "TestDeviceProtocol \<Rightarrow> LinearCmd \<Rightarrow> result" where
  "HandleLinearCmd this (LinearCmd Vectors DeviceIndex MsgId) =
     (if length Vectors \<noteq> 1 then
        Inr (this, Error ''LinearCmd requires 1 vector for this device.'' ERROR_DEVICE MsgId)
      else case index0 Vectors of
        None \<Rightarrow> Inl TypeError
      | Some (VectorSubcommand Duration Position) \<Rightarrow>
          (let range = Num 90;
               currentPosition = js_mul Position (Num 100);
               positionDelta = Math_abs (js_sub currentPosition (linearPosition this));
               speed = Math_floor (js_mul (Num 25000)
                         (Math_pow (js_div (js_mul Duration (Num 90)) positionDelta)
                            (js_literal (- 1.05))));
               speed = Math_min (Math_max speed (Num 0)) (Num 95);
               positionGoal = Math_floor
                         (js_add (js_mul (js_div currentPosition (Num 99)) range)
                            (js_div (js_sub (Num 99) range) (Num 2)))
           in HandleFleshlightLaunchFW12Cmd this
                (FleshlightLaunchFW12Cmd speed positionGoal DeviceIndex MsgId)))"


section \<open>ButtplugBrowserClient\<close>

text \<open>
  The two fields of the class and the log of the events it has emitted, oldest first.
  The state of the base class \<open>ButtplugClient\<close> is the extension part of the record.
\<close>

record 'srv ButtplugBrowserClient =
  connected :: bool
  server :: "'srv option"
  client_events :: "string list"

definition Connected :: "('srv, 'z) ButtplugBrowserClient_scheme \<Rightarrow> bool" where
  "Connected this = connected this"

definition Disconnect ::
  "('srv, 'z) ButtplugBrowserClient_scheme \<Rightarrow> ('srv, 'z) ButtplugBrowserClient_scheme" where
  "Disconnect this =
     (if \<not> Connected this then this
      else this\<lparr>connected := False, server := None,
                client_events := client_events this @ [''close'']\<rparr>)"

text \<open>
  A call either throws to its caller or returns a value; a promise is resolved with a
  value or rejected with an error.
\<close>

datatype 'a promise = Resolved 'a | Rejected js_error

datatype 'a completion = Returned 'a | Thrown js_error

text \<open>
  \<open>Send\<close> is an \<open>async\<close> function (compiled to \<open>__awaiter\<close>): whatever its body throws,
  the call returns a promise, rejected with what was thrown.  The server's \<open>SendMessage\<close>
  and the inherited \<open>ParseMessages\<close> are not part of the sources and are parameters:
  \<open>SendMessage\<close> gives the server as it has become with the reply or what it throws,
  \<open>ParseMessages\<close> the client as it has become with what it throws, if anything.
  Calling a method of \<open>null\<close> throws a \<open>TypeError\<close>.  The result is the client after the
  call and the completion of the call.
\<close>

definition Send ::
  "('srv \<Rightarrow> 'msg \<Rightarrow> 'srv \<times> (js_error + 'msg)) \<Rightarrow>
   (('srv, 'z) ButtplugBrowserClient_scheme \<Rightarrow> 'msg list \<Rightarrow>
      ('srv, 'z) ButtplugBrowserClient_scheme \<times> js_error option) \<Rightarrow>
   ('srv, 'z) ButtplugBrowserClient_scheme \<Rightarrow> 'msg \<Rightarrow>
   ('srv, 'z) ButtplugBrowserClient_scheme \<times> unit promise completion" where
  "Send SendMessage ParseMessages this aMsg =
     (if \<not> Connected this then
        (this, Returned (Rejected (JsError ''ButtplugClient not connected'')))
      else case server this of
        None \<Rightarrow> (this, Returned (Rejected TypeError))
      | Some srv \<Rightarrow>
          (case SendMessage srv aMsg of
             (srv', Inl e) \<Rightarrow> (this\<lparr>server := Some srv'\<rparr>, Returned (Rejected e))
           | (srv', Inr returnMsg) \<Rightarrow>
               (case ParseMessages (this\<lparr>server := Some srv'\<rparr>) [returnMsg] of
                  (this', None) \<Rightarrow> (this', Returned (Resolved ()))
                | (this', Some e) \<Rightarrow> (this', Returned (Rejected e)))))"

section \<open>The documented translation\<close>

text \<open>
  The transform of a linear motion vector into the pair (speed, position) as the
  specification words it, step by step.  The arithmetic is the one of the numbers of
  the source; the absolute value and the clamp are the mathematical ones, written here
  on their own (NaN, which is no number to clamp, is left as it is).  These definitions
  follow the specification, not the source; they are what \<open>HandleLinearCmd\<close> is
  compared with.
\<close>

definition spec_abs :: "jsnum \<Rightarrow> jsnum" where
  "spec_abs v =
     (case v of Num x \<Rightarrow> Num (if x < 0 then - x else x) | PosInf \<Rightarrow> PosInf
      | NegInf \<Rightarrow> PosInf | NaN \<Rightarrow> NaN)"

definition clamp :: "jsnum \<Rightarrow> real \<Rightarrow> real \<Rightarrow> jsnum" where
  "clamp v lo hi =
     (case v of Num x \<Rightarrow> Num (if x < lo then lo else if hi < x then hi else x)
      | PosInf \<Rightarrow> Num hi | NegInf \<Rightarrow> Num lo | NaN \<Rightarrow> NaN)"

definition spec_currentPosition :: "jsnum \<Rightarrow> jsnum" where
  "spec_currentPosition targetPositionNormalized = js_mul targetPositionNormalized (Num 100)"

definition spec_positionDelta :: "jsnum \<Rightarrow> jsnum \<Rightarrow> jsnum" where
  "spec_positionDelta currentPosition lastKnownPosition =
     spec_abs (js_sub currentPosition lastKnownPosition)"

definition spec_speed :: "jsnum \<Rightarrow> jsnum \<Rightarrow> jsnum" where
  "spec_speed duration_ms positionDelta =
     clamp (Math_floor (js_mul (Num 25000)
              (Math_pow (js_div (js_mul duration_ms (Num 90)) positionDelta)
                 (js_literal (- 1.05)))))
       0 95"

definition spec_positionGoal :: "jsnum \<Rightarrow> jsnum" where
  "spec_positionGoal currentPosition =
     Math_floor (js_add (js_mul (js_div currentPosition (Num 99)) (Num 90)) (Num 4.5))"



section \<open>Ranges and examples\<close>

text \<open>
  A number lies in a closed range when it is finite and between the bounds; an infinity
  or NaN lies in no range.
\<close>

fun in_range :: "jsnum \<Rightarrow> real \<Rightarrow> real \<Rightarrow> bool" where
  "in_range (Num x) lo hi = (lo \<le> x \<and> x \<le> hi)"
| "in_range PosInf lo hi = False"
| "in_range NegInf lo hi = False"
| "in_range NaN lo hi = False"

text \<open>
  Two devices as the constructor builds them on a \<open>TestDeviceImpl\<close>: one with the
  linear capability only, one with the vibrate capability only.
\<close>

definition launch_device :: TestDeviceProtocol where
  "launch_device = projr (TestDeviceProtocol_new ''launch'' True False True False)"

definition vibe_device :: TestDeviceProtocol where
  "vibe_device = projr (TestDeviceProtocol_new ''vibe'' True True False False)"

text \<open>
  A server that counts the messages it is sent and answers each with itself, and a
  \<open>ParseMessages\<close> that does nothing.
\<close>

definition echo_SendMessage :: "nat \<Rightarrow> StopDeviceCmd \<Rightarrow> nat \<times> (js_error + StopDeviceCmd)" where
  "echo_SendMessage srv aMsg = (Suc srv, Inr aMsg)"

definition quiet_ParseMessages ::
  "nat ButtplugBrowserClient \<Rightarrow> StopDeviceCmd list \<Rightarrow> nat ButtplugBrowserClient \<times> js_error option" where
  "quiet_ParseMessages this msgs = (this, None)"

section \<open>Capability negotiation\<close>

lemma has_after_new:
  assumes "TestDeviceProtocol_new name True v l r = Inr this"
  shows "has this C_VibrateCmd = v" and "has this C_LinearCmd = l" and "has this C_RotateCmd = r"
  using assms
  by (auto simp: TestDeviceProtocol_new_def super_new_def MsgFuncs_set_def has_def Let_def
      split: if_splits)

text \<open>
  Claim C7.  Whatever the three capability flags are, the constructor succeeds on a
  \<open>TestDeviceImpl\<close> and \<open>MessageSpecifications\<close> of the new object is one set chosen by
  the priority vibrate, then linear, then rotate: \<open>VibrateCmd\<close> (2 features),
  \<open>SingleMotorVibrateCmd\<close> and \<open>StopDeviceCmd\<close> when vibrate is set; else \<open>LinearCmd\<close>
  (1 feature), \<open>FleshlightLaunchFW12Cmd\<close> and \<open>StopDeviceCmd\<close> when linear is set; else
  \<open>RotateCmd\<close> (1 feature) and \<open>StopDeviceCmd\<close> when rotate is set; else nothing.
\<close>

theorem C7_MessageSpecifications_priority:
  "\<exists>this. TestDeviceProtocol_new name True v l r = Inr this \<and>
     MessageSpecifications this =
       (if v then
          [(''VibrateCmd'', Some 2), (''SingleMotorVibrateCmd'', None), (''StopDeviceCmd'', None)]
        else if l then
          [(''LinearCmd'', Some 1), (''FleshlightLaunchFW12Cmd'', None), (''StopDeviceCmd'', None)]
        else if r then
          [(''RotateCmd'', Some 1), (''StopDeviceCmd'', None)]
        else [])"
proof -
  obtain this where t: "TestDeviceProtocol_new name True v l r = Inr this"
    by (simp add: TestDeviceProtocol_new_def Let_def)
  from has_after_new [OF t] show ?thesis
    using t by (simp add: MessageSpecifications_def)
qed

theorem C7_all_flags_witness:
  "\<exists>this. TestDeviceProtocol_new ''all'' True True True True = Inr this \<and>
     MessageSpecifications this =
       [(''VibrateCmd'', Some 2), (''SingleMotorVibrateCmd'', None), (''StopDeviceCmd'', None)]"
  using C7_MessageSpecifications_priority [of "''all''" True True True] by simp

section \<open>The example devices\<close>

lemma launch_device_new:
  "TestDeviceProtocol_new ''launch'' True False True False = Inr launch_device"
  by (simp add: launch_device_def TestDeviceProtocol_new_def Let_def)

lemma vibe_device_new:
  "TestDeviceProtocol_new ''vibe'' True True False False = Inr vibe_device"
  by (simp add: vibe_device_def TestDeviceProtocol_new_def Let_def)

lemma launch_device_linearPosition: "linearPosition launch_device = Num 0"
  by (simp add: launch_device_def TestDeviceProtocol_new_def super_new_def MsgFuncs_set_def Let_def)

lemma launch_device_events: "events launch_device = []"
  by (simp add: launch_device_def TestDeviceProtocol_new_def super_new_def MsgFuncs_set_def Let_def)

lemma vibe_device_events: "events vibe_device = []"
  by (simp add: vibe_device_def TestDeviceProtocol_new_def super_new_def MsgFuncs_set_def Let_def)

lemma vibe_device_has_VibrateCmd: "has vibe_device C_VibrateCmd"
  using has_after_new(1) [OF vibe_device_new] by simp

section \<open>Vibration and rotation handlers\<close>

lemma HandleSingleMotorVibrateCmd_state:
  "HandleSingleMotorVibrateCmd this (SingleMotorVibrateCmd Speed DeviceIndex MsgId) =
     Inr (this\<lparr>vibrateSpeed := Speed, events := events this @ [(''vibrate'', PNumber Speed)]\<rparr>,
          Ok MsgId)"
  by (simp add: emit_def)

text \<open>
  On a device that has the vibrate handlers, \<open>StopDeviceCmd\<close> appends the event
  \<open>vibrate\<close> with 0 and changes no field: \<open>vibrateSpeed\<close> is what it was.
\<close>

lemma HandleStopDeviceCmd_vibrate:
  "has this C_VibrateCmd \<Longrightarrow>
     HandleStopDeviceCmd this (StopDeviceCmd MsgId) =
       Inr (this\<lparr>events := events this @ [(''vibrate'', PNumber (Num 0))]\<rparr>, Ok MsgId)"
  by (simp add: emit_def)

text \<open>
  Claim C4, on the code.  On the vibrate-capable example device, after
  \<open>SingleMotorVibrateCmd\<close> with speed 0.5, \<open>StopDeviceCmd\<close> emits \<open>vibrate\<close> with 0
  and answers \<open>Ok\<close> with the command's id, but \<open>vibrateSpeed\<close> is still 0.5, not 0.
\<close>

theorem C4_stop_leaves_vibrateSpeed:
  "HandleSingleMotorVibrateCmd vibe_device (SingleMotorVibrateCmd (Num 0.5) 0 1) =
     Inr (vibe_device\<lparr>vibrateSpeed := Num 0.5,
            events := [(''vibrate'', PNumber (Num 0.5))]\<rparr>, Ok 1) \<and>
   HandleStopDeviceCmd
       (vibe_device\<lparr>vibrateSpeed := Num 0.5, events := [(''vibrate'', PNumber (Num 0.5))]\<rparr>)
       (StopDeviceCmd 2) =
     Inr (vibe_device\<lparr>vibrateSpeed := Num 0.5,
            events := [(''vibrate'', PNumber (Num 0.5)), (''vibrate'', PNumber (Num 0))]\<rparr>, Ok 2) \<and>
   vibrateSpeed (vibe_device\<lparr>vibrateSpeed := Num 0.5,
            events := [(''vibrate'', PNumber (Num 0.5)), (''vibrate'', PNumber (Num 0))]\<rparr>) \<noteq> Num 0"
proof -
  have v: "has (vibe_device\<lparr>vibrateSpeed := Num 0.5,
      events := [(''vibrate'', PNumber (Num 0.5))]\<rparr>) C_VibrateCmd"
    using vibe_device_has_VibrateCmd by (simp add: has_def)
  have a: "HandleSingleMotorVibrateCmd vibe_device (SingleMotorVibrateCmd (Num 0.5) 0 1) =
     Inr (vibe_device\<lparr>vibrateSpeed := Num 0.5,
            events := [(''vibrate'', PNumber (Num 0.5))]\<rparr>, Ok 1)"
    by (simp only: HandleSingleMotorVibrateCmd_state vibe_device_events append_Nil)
  have b: "HandleStopDeviceCmd
       (vibe_device\<lparr>vibrateSpeed := Num 0.5, events := [(''vibrate'', PNumber (Num 0.5))]\<rparr>)
       (StopDeviceCmd 2) =
     Inr (vibe_device\<lparr>vibrateSpeed := Num 0.5,
            events := [(''vibrate'', PNumber (Num 0.5)), (''vibrate'', PNumber (Num 0))]\<rparr>, Ok 2)"
    by (simp only: HandleStopDeviceCmd_vibrate [OF v]) simp
  have c: "vibrateSpeed (vibe_device\<lparr>vibrateSpeed := Num 0.5,
            events := [(''vibrate'', PNumber (Num 0.5)), (''vibrate'', PNumber (Num 0))]\<rparr>) \<noteq> Num 0"
    by simp
  show ?thesis using a b c by (intro conjI)
qed

text \<open>
  Claim C6.  A \<open>VibrateCmd\<close> whose \<open>Speeds\<close> has a first entry is handled as the
  \<open>SingleMotorVibrateCmd\<close> built from that entry's speed and the command's device index
  and id: the result is the one of that handler, \<open>vibrateSpeed\<close> becomes the first
  speed, one \<open>vibrate\<close> event carries it, and the entries after the first change
  nothing.
\<close>

theorem C6_VibrateCmd_first_entry:
  "HandleVibrateCmd this (VibrateCmd (SpeedSubcommand i s # rest) DeviceIndex MsgId) =
     HandleSingleMotorVibrateCmd this (SingleMotorVibrateCmd s DeviceIndex MsgId) \<and>
   HandleVibrateCmd this (VibrateCmd (SpeedSubcommand i s # rest) DeviceIndex MsgId) =
     Inr (this\<lparr>vibrateSpeed := s, events := events this @ [(''vibrate'', PNumber s)]\<rparr>,
          Ok MsgId) \<and>
   HandleVibrateCmd this (VibrateCmd (SpeedSubcommand i s # rest) DeviceIndex MsgId) =
     HandleVibrateCmd this (VibrateCmd [SpeedSubcommand i s] DeviceIndex MsgId)"
  by (simp add: index0_def emit_def)

theorem C6_two_motors_witness:
  "HandleVibrateCmd vibe_device
     (VibrateCmd [SpeedSubcommand 0 (Num 0.3), SpeedSubcommand 1 (Num 0.9)] 0 5) =
   Inr (vibe_device\<lparr>vibrateSpeed := Num 0.3,
          events := [(''vibrate'', PNumber (Num 0.3))]\<rparr>, Ok 5)"
proof -
  have "HandleVibrateCmd vibe_device
     (VibrateCmd [SpeedSubcommand 0 (Num 0.3), SpeedSubcommand 1 (Num 0.9)] 0 5) =
   Inr (vibe_device\<lparr>vibrateSpeed := Num 0.3,
          events := events vibe_device @ [(''vibrate'', PNumber (Num 0.3))]\<rparr>, Ok 5)"
    using C6_VibrateCmd_first_entry
      [of vibe_device 0 "Num 0.3" "[SpeedSubcommand 1 (Num 0.9)]" 0 5]
    by blast
  then show ?thesis by (simp only: vibe_device_events append_Nil)
qed

text \<open>
  Claim C10.  A \<open>VibrateCmd\<close> with no speed entry and a \<open>RotateCmd\<close> with no rotation
  entry make the handler throw a \<open>TypeError\<close> (the read of a property of the missing
  first element): the handler gives neither an \<open>Ok\<close> nor an \<open>Error\<close> message.
\<close>

theorem C10_empty_sequence_faults:
  "HandleVibrateCmd this (VibrateCmd [] DeviceIndex MsgId) = Inl TypeError \<and>
   HandleRotateCmd this (RotateCmd [] DeviceIndex MsgId) = Inl TypeError"
  by (simp add: index0_def)

section \<open>Linear commands: the vector count\<close>

text \<open>
  Claim C5.  A \<open>LinearCmd\<close> whose \<open>Vectors\<close> does not have length 1 is answered with
  an \<open>Error\<close> message of class \<open>ERROR_DEVICE\<close> carrying the command's id; nothing is
  thrown, and the object (every field, and the event log) is as before.
\<close>

theorem C5_LinearCmd_vector_count:
  "length Vectors \<noteq> 1 \<Longrightarrow>
     HandleLinearCmd this (LinearCmd Vectors DeviceIndex MsgId) =
       Inr (this, Error ''LinearCmd requires 1 vector for this device.'' ERROR_DEVICE MsgId)"
  by simp

theorem C5_two_vectors_witness:
  "length [VectorSubcommand (Num 500) (Num 0.3), VectorSubcommand (Num 500) (Num 0.9)] \<noteq> 1 \<and>
   HandleLinearCmd launch_device
     (LinearCmd [VectorSubcommand (Num 500) (Num 0.3), VectorSubcommand (Num 500) (Num 0.9)] 0 7) =
   Inr (launch_device, Error ''LinearCmd requires 1 vector for this device.'' ERROR_DEVICE 7)"
proof -
  have h: "length [VectorSubcommand (Num 500) (Num 0.3), VectorSubcommand (Num 500) (Num 0.9)] \<noteq> 1"
    by simp
  show ?thesis
    using h C5_LinearCmd_vector_count [OF h, of launch_device 0 7] by (rule conjI)
qed

section \<open>Rounding: exponents\<close>

lemma pow2_powi: "pow2 k = 2 powi k"
  by (simp add: pow2_def power_int_def power_divide)

lemma pow2_pos: "0 < pow2 k"
  by (simp add: pow2_powi)

lemma pow2_add: "pow2 (a + b) = pow2 a * pow2 b"
  by (simp add: pow2_powi power_int_add)

lemma pow2_mono: "a \<le> b \<Longrightarrow> pow2 a \<le> pow2 b"
  by (simp add: pow2_powi power_int_increasing)

lemma pow2_nat: "0 \<le> k \<Longrightarrow> pow2 k = of_int (2 ^ nat k)"
  by (simp add: pow2_def)

lemma real_of_int_mono: "a \<le> b \<Longrightarrow> real_of_int a \<le> real_of_int b"
  by simp

lemma log2_floor_bounds:
  assumes "0 < x"
  shows "pow2 (log2_floor x) \<le> x" and "x < pow2 (log2_floor x + 1)"
proof -
  have "pow2 (log2_floor x) \<le> x \<and> x < pow2 (log2_floor x + 1)"
  proof (cases "1 \<le> x")
    case True
    define n where "n = \<lfloor>x\<rfloor>"
    have n: "0 < n" using True by (simp add: n_def)
    have b1: "1 \<le> bitlen n" using n by (simp add: bitlen_alt_def)
    from bitlen_bounds [OF n] have lo: "2 ^ nat (bitlen n - 1) \<le> n" and hi: "n < 2 ^ nat (bitlen n)"
      by auto
    have "(2::real) ^ nat (bitlen n - 1) \<le> of_int n"
      using real_of_int_mono [OF lo] by simp
    also have "of_int n \<le> x" by (simp add: n_def)
    finally have l: "pow2 (bitlen n - 1) \<le> x" using b1 by (simp add: pow2_def)
    have "n + 1 \<le> 2 ^ nat (bitlen n)" using hi by simp
    from real_of_int_mono [OF this]
    have "of_int n + 1 \<le> (2::real) ^ nat (bitlen n)" by simp
    moreover have "x < of_int n + 1" by (simp add: n_def)
    ultimately have "x < 2 ^ nat (bitlen n)" by linarith
    then have h: "x < pow2 (bitlen n)" using b1 by (simp add: pow2_def)
    show ?thesis using l h True by (simp add: log2_floor_def n_def)
  next
    case False
    define y where "y = 1 / x"
    define c where "c = \<lceil>y\<rceil> - 1"
    have y1: "1 < y" using False assms by (simp add: y_def)
    have c: "0 < c" using y1 by (simp add: c_def less_ceiling_iff)
    have b1: "1 \<le> bitlen c" using c by (simp add: bitlen_alt_def)
    from bitlen_bounds [OF c] have lo: "2 ^ nat (bitlen c - 1) \<le> c" and hi: "c < 2 ^ nat (bitlen c)"
      by auto
    have cy: "of_int c < y" unfolding c_def by linarith
    have yc: "y \<le> of_int c + 1" unfolding c_def by (simp add: le_of_int_ceiling)
    have "(2::real) ^ nat (bitlen c - 1) \<le> of_int c"
      using real_of_int_mono [OF lo] by simp
    then have "2 ^ nat (bitlen c - 1) < y" using cy by linarith
    then have "x < 1 / 2 ^ nat (bitlen c - 1)"
      using assms by (simp add: y_def field_simps)
    moreover have "pow2 (- bitlen c + 1) = 1 / 2 ^ nat (bitlen c - 1)"
      using b1 by (auto simp: pow2_def)
    ultimately have h: "x < pow2 (- bitlen c + 1)" by simp
    have "c + 1 \<le> 2 ^ nat (bitlen c)" using hi by simp
    from real_of_int_mono [OF this]
    have "of_int c + 1 \<le> (2::real) ^ nat (bitlen c)" by simp
    then have "y \<le> 2 ^ nat (bitlen c)" using yc by linarith
    then have "1 / 2 ^ nat (bitlen c) \<le> x"
      using assms by (simp add: y_def field_simps)
    moreover have "pow2 (- bitlen c) = 1 / 2 ^ nat (bitlen c)"
      using b1 by (auto simp: pow2_def)
    ultimately have l: "pow2 (- bitlen c) \<le> x" by simp
    show ?thesis using l h False by (simp add: log2_floor_def c_def y_def)
  qed
  then show "pow2 (log2_floor x) \<le> x" and "x < pow2 (log2_floor x + 1)" by auto
qed

lemma log2_floor_less:
  assumes "0 < x" and "x < pow2 k"
  shows "log2_floor x < k"
proof (rule ccontr)
  assume "\<not> log2_floor x < k"
  then have "pow2 k \<le> pow2 (log2_floor x)" by (intro pow2_mono) simp
  with log2_floor_bounds(1) [OF assms(1)] assms(2) show False by simp
qed

lemma log2_floor_unique:
  assumes "0 < x" and "pow2 e \<le> x" and "x < pow2 (e + 1)"
  shows "log2_floor x = e"
proof -
  have "log2_floor x < e + 1" using assms(1,3) by (rule log2_floor_less)
  moreover have "e \<le> log2_floor x"
  proof (rule ccontr)
    assume "\<not> e \<le> log2_floor x"
    then have "pow2 (log2_floor x + 1) \<le> pow2 e" by (intro pow2_mono) simp
    with log2_floor_bounds(2) [OF assms(1)] assms(2) show False by simp
  qed
  ultimately show ?thesis by simp
qed

section \<open>Rounding: bounds and exact values\<close>

lemma round_even_ge: "of_int m \<le> t \<Longrightarrow> m \<le> round_even t"
  by (auto simp: round_even_def Let_def le_floor_iff) linarith+

lemma round_even_le: "t \<le> of_int m \<Longrightarrow> round_even t \<le> m"
  by (auto simp: round_even_def Let_def) linarith+

lemma ulp_exp_le:
  assumes "x \<noteq> 0" and "\<bar>x\<bar> < pow2 (j + 53)" and "- 1074 \<le> j"
  shows "ulp_exp x \<le> j"
proof -
  have "log2_floor \<bar>x\<bar> < j + 53"
    using assms by (intro log2_floor_less) auto
  then show ?thesis using assms(3) by (simp add: ulp_exp_def)
qed

lemma pow2_multiple:
  assumes "u \<le> j"
  shows "of_int a * pow2 j = of_int (a * 2 ^ nat (j - u)) * pow2 u"
proof -
  have "pow2 j = pow2 (j - u) * pow2 u"
    using pow2_add [of "j - u" u] by simp
  moreover have "pow2 (j - u) = of_int (2 ^ nat (j - u))"
    using assms by (intro pow2_nat) simp
  ultimately show ?thesis by simp
qed

text \<open>
  Rounding does not cross a binary64 value: between two multiples of \<open>2^j\<close> that have
  at most 53 bits, a number is rounded to a value between them.
\<close>

lemma round64_between:
  assumes lo: "lo = of_int a * pow2 j" and hi: "hi = of_int b * pow2 j"
    and j: "- 1074 \<le> j" "j + 53 \<le> 1024"
    and x: "lo \<le> x" "x \<le> hi"
    and m: "\<bar>lo\<bar> < pow2 (j + 53)" "\<bar>hi\<bar> < pow2 (j + 53)"
  shows "\<exists>v. round64 x = Num v \<and> lo \<le> v \<and> v \<le> hi"
proof (cases "x = 0")
  case True
  then show ?thesis using x by (simp add: round64_def)
next
  case False
  define u where "u = ulp_exp x"
  define q where "q = pow2 u"
  define r where "r = of_int (round_even (x / q)) * q"
  have q0: "0 < q" by (simp add: q_def pow2_pos)
  have ax: "\<bar>x\<bar> < pow2 (j + 53)" using x m by linarith
  have uj: "u \<le> j" unfolding u_def using False ax j(1) by (rule ulp_exp_le)
  have lo': "lo = of_int (a * 2 ^ nat (j - u)) * q"
    unfolding lo q_def using uj by (rule pow2_multiple)
  have hi': "hi = of_int (b * 2 ^ nat (j - u)) * q"
    unfolding hi q_def using uj by (rule pow2_multiple)
  have "of_int (a * 2 ^ nat (j - u)) \<le> x / q"
    using x(1) q0 unfolding lo' by (simp add: field_simps)
  then have "a * 2 ^ nat (j - u) \<le> round_even (x / q)" by (rule round_even_ge)
  then have "real_of_int (a * 2 ^ nat (j - u)) \<le> of_int (round_even (x / q))"
    by (rule real_of_int_mono)
  then have l: "lo \<le> r" unfolding lo' r_def using q0 by (simp only: mult_le_cancel_right_pos)
  have "x / q \<le> of_int (b * 2 ^ nat (j - u))"
    using x(2) q0 unfolding hi' by (simp add: field_simps)
  then have "round_even (x / q) \<le> b * 2 ^ nat (j - u)" by (rule round_even_le)
  then have "real_of_int (round_even (x / q)) \<le> of_int (b * 2 ^ nat (j - u))"
    by (rule real_of_int_mono)
  then have h: "r \<le> hi" unfolding hi' r_def using q0 by (simp only: mult_le_cancel_right_pos)
  have "\<bar>r\<bar> < pow2 (j + 53)" using l h m by linarith
  also have "pow2 (j + 53) \<le> pow2 1024" using j(2) by (rule pow2_mono)
  also have "pow2 1024 = 2 ^ 1024" by (simp add: pow2_def)
  finally have "\<not> 2 ^ 1024 \<le> \<bar>r\<bar>" by simp
  then have "round64 x = Num r"
    using False by (simp add: round64_def Let_def u_def q_def r_def)
  then show ?thesis using l h by blast
qed

lemma round64_exact:
  assumes "x = of_int a * pow2 j" and "- 1074 \<le> j" and "j + 53 \<le> 1024" and "\<bar>a\<bar> < 2 ^ 53"
  shows "round64 x = Num x"
proof -
  have "\<bar>x\<bar> = of_int \<bar>a\<bar> * pow2 j"
    unfolding assms(1) using pow2_pos [of j] by (simp add: abs_mult)
  also have "\<dots> < 2 ^ 53 * pow2 j"
  proof -
    have "real_of_int \<bar>a\<bar> < 2 ^ 53"
      using assms(4) by (simp only: of_int_less_numeral_power_cancel_iff)
    then show ?thesis using pow2_pos [of j] by (simp only: mult_less_cancel_right_pos)
  qed
  also have "\<dots> = pow2 (j + 53)"
    using pow2_add [of j 53] by (simp add: pow2_def)
  finally have m: "\<bar>x\<bar> < pow2 (j + 53)" .
  from round64_between [OF assms(1) assms(1) assms(2) assms(3) order_refl order_refl m m]
  show ?thesis by auto
qed

lemma round64_of_int: "\<bar>k\<bar> < 2 ^ 53 \<Longrightarrow> round64 (of_int k) = Num (of_int k)"
  by (rule round64_exact [where a = k and j = 0]) (simp_all add: pow2_def)

lemma round64_numeral [simp]:
  "(numeral w :: int) < 2 ^ 53 \<Longrightarrow> round64 (numeral w) = Num (numeral w)"
  using round64_of_int [of "numeral w"] by simp

lemma round64_neg_numeral [simp]:
  "(numeral w :: int) < 2 ^ 53 \<Longrightarrow> round64 (- numeral w) = Num (- numeral w)"
  using round64_of_int [of "- numeral w"] by simp

lemma round64_0 [simp]: "round64 0 = Num 0"
  by (simp add: round64_def)

lemma round64_half9 [simp]: "round64 (9 / 2) = Num (9 / 2)"
  by (rule round64_exact [where a = 9 and j = "- 1"]) (simp_all add: pow2_def)


lemma round64_not_NaN [simp]: "round64 x \<noteq> NaN"
  by (simp add: round64_def Let_def)

text \<open>
  The value of \<open>round64\<close> at a given number, from its exponent \<open>e\<close> and the integer \<open>n\<close>
  its quotient by the spacing rounds to.
\<close>

lemma round64_eval:
  assumes e: "pow2 e \<le> \<bar>x\<bar>" "\<bar>x\<bar> < pow2 (e + 1)" "- 1022 \<le> e" "e \<le> 1022"
    and n: "round_even (x / pow2 (e - 52)) = n"
    and v: "v = of_int n * pow2 (e - 52)"
  shows "round64 x = Num v"
proof -
  have x0: "x \<noteq> 0" using e(1) pow2_pos [of e] by auto
  have "log2_floor \<bar>x\<bar> = e" using x0 e(1,2) by (intro log2_floor_unique) auto
  then have u: "ulp_exp x = e - 52" using e(3) by (simp add: ulp_exp_def)
  define q where "q = pow2 (e - 52)"
  have q0: "0 < q" by (simp add: q_def pow2_pos)
  have q53: "pow2 (e + 1) = of_int (2 ^ 53) * q"
    unfolding q_def using pow2_multiple [of "e - 52" "e + 1" 1] by simp
  have "\<bar>x\<bar> \<le> of_int (2 ^ 53) * q" using e(2) q53 by simp
  then have b: "- of_int (2 ^ 53) * q \<le> x" "x \<le> of_int (2 ^ 53) * q" by linarith+
  have "of_int (- (2 ^ 53)) \<le> x / q" using b(1) q0 by (simp add: field_simps)
  then have "- (2 ^ 53) \<le> round_even (x / q)" by (rule round_even_ge)
  then have l: "- (2 ^ 53) \<le> n" using n by (simp add: q_def)
  have "x / q \<le> of_int (2 ^ 53)" using b(2) q0 by (simp add: field_simps)
  then have "round_even (x / q) \<le> 2 ^ 53" by (rule round_even_le)
  then have h: "n \<le> 2 ^ 53" using n by (simp add: q_def)
  have "\<bar>real_of_int n\<bar> \<le> 2 ^ 53" using l h by (simp add: abs_le_iff)
  then have "\<bar>of_int n * q\<bar> \<le> 2 ^ 53 * q"
    using q0 by (simp add: abs_mult)
  also have "2 ^ 53 * q = pow2 (e + 1)" using q53 by simp
  also have "pow2 (e + 1) \<le> pow2 1023" using e(4) by (intro pow2_mono) simp
  also have "pow2 1023 < 2 ^ 1024" by (simp add: pow2_def)
  finally have "\<not> 2 ^ 1024 \<le> \<bar>of_int n * q\<bar>" by simp
  then show ?thesis
    using x0 n by (simp add: round64_def Let_def u v q_def)
qed

section \<open>Linear commands: the translation\<close>

lemma clamp_min_max: "Math_min (Math_max v (Num 0)) (Num 95) = clamp v 0 95"
  by (cases v) (auto simp: clamp_def)

lemma Math_abs_spec: "Math_abs v = spec_abs v"
  by (cases v) (auto simp: spec_abs_def)

lemma HandleFleshlightLaunchFW12Cmd_state:
  "HandleFleshlightLaunchFW12Cmd this (FleshlightLaunchFW12Cmd Speed Position DeviceIndex MsgId) =
     Inr (this\<lparr>linearPosition := Position, linearSpeed := Speed,
            events := events this @ [(''linear'', PPositionSpeed Position Speed)]\<rparr>, Ok MsgId)"
  by (simp add: emit_def)

text \<open>
  With one vector the handler forwards the pair of the documented steps, whatever the
  numbers are; the last known position is the field as it is when the handler starts.
\<close>

lemma HandleLinearCmd_single:
  "HandleLinearCmd this (LinearCmd [VectorSubcommand Duration Position] DeviceIndex MsgId) =
     HandleFleshlightLaunchFW12Cmd this
       (FleshlightLaunchFW12Cmd
          (spec_speed Duration
             (spec_positionDelta (spec_currentPosition Position) (linearPosition this)))
          (spec_positionGoal (spec_currentPosition Position)) DeviceIndex MsgId)"
proof -
  have half: "js_div (js_sub (Num 99) (Num 90)) (Num 2) = Num 4.5"
    by (simp add: js_sub_def)
  show ?thesis
    unfolding HandleLinearCmd.simps index0_def Let_def spec_speed_def spec_positionDelta_def
      spec_currentPosition_def spec_positionGoal_def clamp_min_max Math_abs_spec half
    by simp
qed


subsection \<open>The speed is in range unless it is NaN\<close>

lemma js_literal_105: "js_literal (- 1.05) = Num (- (4728779608739021 / 4503599627370496))"
  unfolding js_literal_def
  by (rule round64_eval [where e = 0 and n = "- 4728779608739021"])
     (simp_all add: pow2_def round_even_def Let_def)




subsection \<open>The position is between 4 and 95\<close>


subsection \<open>Values at fixed inputs\<close>













lemma js_literal_04455: "js_literal 0.4455 = Num (501588408498389 / 1125899906842624)"
  unfolding js_literal_def
  by (rule round64_eval [where e = "- 2" and n = 8025414535974224])
     (simp_all add: pow2_def round_even_def Let_def)

lemma round64_lit_mul100: "round64 (12539710212459725 / 281474976710656) = Num (3134927553114931 / 70368744177664)"
  by (rule round64_eval [where e = 5 and n = 6269855106229862])
     (simp_all add: pow2_def round_even_def Let_def)







lemma js_literal_105_simp [simp]:
  "js_literal (- (21 / 20)) = Num (- (4728779608739021 / 4503599627370496))"
  using js_literal_105 by simp

lemma js_literal_04455_simp [simp]:
  "js_literal (891 / 2000) = Num (501588408498389 / 1125899906842624)"
  using js_literal_04455 by simp


text \<open>The position at the positions 0, 0.5, 1 and at the literal 0.4455.\<close>

lemma spec_positionGoal_0: "spec_positionGoal (spec_currentPosition (Num 0)) = Num 4"
  by (simp add: spec_positionGoal_def spec_currentPosition_def)



lemma spec_currentPosition_lit [simp]:
  "spec_currentPosition (Num (501588408498389 / 1125899906842624)) =
     Num (3134927553114931 / 70368744177664)"
  by (simp add: spec_currentPosition_def round64_lit_mul100)



text \<open>The position delta from the last position 0 of the new linear device.\<close>

lemma launch_device_delta_0:
  "spec_positionDelta (spec_currentPosition (Num 0)) (linearPosition launch_device) = Num 0"
  by (simp add: launch_device_linearPosition spec_positionDelta_def spec_currentPosition_def
      js_sub_def spec_abs_def)









lemma spec_speed_zero_zero: "spec_speed (Num 0) (Num 0) = NaN"
  by (simp add: spec_speed_def clamp_def)







subsection \<open>The claims\<close>







text \<open>
  Claim C3, on the code.  On the new linear device, whose last position is 0, a
  \<open>LinearCmd\<close> to position 0 with duration 0 has a zero position delta; the handler
  does not throw, but the speed it computes and stores is NaN.
\<close>

theorem C3_zero_delta_zero_duration:
  "HandleLinearCmd launch_device (LinearCmd [VectorSubcommand (Num 0) (Num 0)] 0 1) =
     Inr (launch_device\<lparr>linearPosition := Num 4, linearSpeed := NaN,
            events := [(''linear'', PPositionSpeed (Num 4) NaN)]\<rparr>, Ok 1) \<and>
   \<not> in_range NaN 0 95"
proof -
  have "HandleLinearCmd launch_device (LinearCmd [VectorSubcommand (Num 0) (Num 0)] 0 1) =
     Inr (launch_device\<lparr>linearPosition := Num 4, linearSpeed := NaN,
            events := [(''linear'', PPositionSpeed (Num 4) NaN)]\<rparr>, Ok 1)"
    by (simp only: HandleLinearCmd_single HandleFleshlightLaunchFW12Cmd_state
        launch_device_delta_0 spec_speed_zero_zero spec_positionGoal_0 launch_device_events
        append_Nil)
  then show ?thesis by simp
qed

section \<open>The client\<close>

text \<open>
  Claim C8, as amended.  \<open>Send\<close> on a client that is not connected does not throw to
  its caller: it returns a promise that is rejected with the error
  "ButtplugClient not connected".  Whatever the server's \<open>SendMessage\<close> would do, it is
  not called, and the client (connection flag, server reference and all the rest) is as
  before.
\<close>

theorem C8_Send_not_connected:
  "\<not> Connected this \<Longrightarrow>
     Send SendMessage ParseMessages this aMsg =
       (this, Returned (Rejected (JsError ''ButtplugClient not connected'')))"
  by (simp add: Send_def)

theorem C8_Send_not_connected_witness:
  "\<not> Connected \<lparr>connected = False, server = None :: nat option, client_events = []\<rparr> \<and>
   Send echo_SendMessage quiet_ParseMessages
     \<lparr>connected = False, server = None, client_events = []\<rparr> (StopDeviceCmd 1) =
   (\<lparr>connected = False, server = None, client_events = []\<rparr>,
    Returned (Rejected (JsError ''ButtplugClient not connected'')))"
proof -
  have h: "\<not> Connected \<lparr>connected = False, server = None :: nat option, client_events = []\<rparr>"
    by (simp add: Connected_def)
  show ?thesis
    using h C8_Send_not_connected [OF h, of echo_SendMessage quiet_ParseMessages
      "StopDeviceCmd 1"]
    by (rule conjI)
qed

text \<open>
  The claim as it is written fails on a client that is not connected: the call of
  \<open>Send\<close> returns (a rejected promise), it does not throw the error to its caller.
\<close>

theorem C8_synchronous_counterexample:
  "snd (Send echo_SendMessage quiet_ParseMessages
      \<lparr>connected = False, server = None, client_events = []\<rparr> (StopDeviceCmd 1)) =
     Returned (Rejected (JsError ''ButtplugClient not connected'')) \<and>
   snd (Send echo_SendMessage quiet_ParseMessages
      \<lparr>connected = False, server = None, client_events = []\<rparr> (StopDeviceCmd 1)) \<noteq>
     Thrown (JsError ''ButtplugClient not connected'')"
  by (simp add: Send_def Connected_def)

text \<open>
  Claim C9, as amended.  \<open>Disconnect\<close> on a connected client clears the connection
  flag and the server reference and emits exactly one event, named \<open>close\<close> (not
  \<open>closed\<close>); on a client that is not connected it changes nothing and emits nothing;
  so a second \<open>Disconnect\<close> in a row changes and emits nothing more.
\<close>

theorem C9_Disconnect_close:
  assumes "Connected a" and "\<not> Connected b"
  shows "Disconnect a = a\<lparr>connected := False, server := None,
             client_events := client_events a @ [''close'']\<rparr> \<and>
         Disconnect b = b \<and>
         Disconnect (Disconnect a) = Disconnect a"
  using assms by (simp add: Disconnect_def Connected_def)

theorem C9_Disconnect_close_witness:
  "Connected \<lparr>connected = True, server = Some (0::nat), client_events = []\<rparr> \<and>
   \<not> Connected \<lparr>connected = False, server = None :: nat option, client_events = [''close'']\<rparr> \<and>
   Disconnect \<lparr>connected = True, server = Some (0::nat), client_events = []\<rparr> =
     \<lparr>connected = False, server = None, client_events = [''close'']\<rparr> \<and>
   Disconnect \<lparr>connected = False, server = None :: nat option, client_events = [''close'']\<rparr> =
     \<lparr>connected = False, server = None, client_events = [''close'']\<rparr> \<and>
   Disconnect (Disconnect \<lparr>connected = True, server = Some (0::nat), client_events = []\<rparr>) =
     \<lparr>connected = False, server = None, client_events = [''close'']\<rparr>"
proof -
  have h: "Connected \<lparr>connected = True, server = Some (0::nat), client_events = []\<rparr>"
    "\<not> Connected \<lparr>connected = False, server = None :: nat option, client_events = [''close'']\<rparr>"
    by (simp_all add: Connected_def)
  show ?thesis
    using h C9_Disconnect_close [OF h] by simp
qed

text \<open>
  The claim as it is written fails on a connected client: after \<open>Disconnect\<close> the one
  event emitted is \<open>close\<close>, and no event \<open>closed\<close> has been emitted.
\<close>

theorem C9_closed_counterexample:
  "client_events (Disconnect \<lparr>connected = True, server = Some (0::nat), client_events = []\<rparr>) =
     [''close''] \<and>
   count_list
     (client_events (Disconnect \<lparr>connected = True, server = Some (0::nat), client_events = []\<rparr>))
     ''closed'' = 0"
  by (simp add: Disconnect_def Connected_def)

end
